theory Spec2Isabelle
  imports Main "HOL-Library.Word"
begin

section \<open>Data model (types.ts)\<close>

text \<open>
  Strings are lists of characters; a character stands for one code unit of a JavaScript
  string. The operations modelled below (\<open>split\<close> on a one-character separator,
  \<open>trim\<close>, concatenation) work unit by unit.
\<close>

datatype AppState = IDLE | UPLOADING | TRANSCRIBING | ANALYZING | COMPLETED | ERROR

datatype Sentiment = Positive | Neutral | Negative

record ActionItem =
  task :: string
  assignee :: string

record AnalysisResult =
  transcription :: string
  executiveSummary :: string
  actionItems :: "ActionItem list"
  sentiment :: Sentiment
  sentimentReasoning :: string

text \<open>
  The four \<open>useState\<close> cells of the \<open>App\<close> component. \<open>None\<close> is JavaScript's
  \<open>null\<close>. The type of the stored result is a parameter: no handler of the state
  machine looks inside it.
\<close>

record 'r App =
  state :: AppState
  error :: "string option"
  result :: "'r option"
  fileName :: "string option"

definition initial :: "'r App" where
  "initial = \<lparr>state = IDLE, error = None, result = None, fileName = None\<rparr>"

text \<open>
  A browser \<open>File\<close>: what the code reads of it is \<open>name\<close>, \<open>size\<close> and \<open>type\<close>, and
  the reader reads its bytes. \<open>size\<close> is the number of bytes.
\<close>

record File =
  name :: string
  type_mime :: string
  contents :: "8 word list"

definition size_bytes :: "File \<Rightarrow> nat" where
  "size_bytes f = length (contents f)"

text \<open>
  How a stored value behaves where the code tests it (\<open>!result\<close>, \<open>result && ...\<close>) and
  where \<open>setResult\<close> stores it: it is \<open>null\<close>, the number 0, another falsy value
  (\<open>false\<close>, the empty string), or truthy. The handlers take this classification of the
  result type as a parameter.
\<close>

datatype truthiness = IsNull | IsZero | IsFalseOrEmpty | IsTruthy

text \<open>
  A thrown JavaScript value, reduced to what the code reads of it: its \<open>message\<close>,
  which may be missing.
\<close>

datatype exn = Exn (message: "string option")

definition ReadFailure :: exn where
  "ReadFailure = Exn (Some ''Failed to read file'')"

definition EmptyResponse :: exn where
  "EmptyResponse = Exn (Some ''No response from AI'')"

section \<open>String helpers of the JavaScript library\<close>

text \<open>\<open>s.split(sep)\<close> for a one-character separator: never empty, \<open>''''\<close> gives \<open>['''']\<close>.\<close>

fun split :: "char \<Rightarrow> string \<Rightarrow> string list" where
  "split sep [] = [[]]"
| "split sep (c # cs) =
     (if c = sep then [] # split sep cs
      else (case split sep cs of [] \<Rightarrow> [[c]] | p # ps \<Rightarrow> (c # p) # ps))"

text \<open>\<open>xs[i]\<close>: reading past the end of an array gives \<open>undefined\<close>, here \<open>None\<close>.\<close>

fun index :: "'a list \<Rightarrow> nat \<Rightarrow> 'a option" where
  "index [] i = None"
| "index (x # xs) 0 = Some x"
| "index (x # xs) (Suc i) = index xs i"

text \<open>\<open>xs.join(sep)\<close> on an array of strings.\<close>

fun join :: "string \<Rightarrow> string list \<Rightarrow> string" where
  "join sep [] = []"
| "join sep [x] = x"
| "join sep (x # y # ys) = x @ sep @ join sep (y # ys)"

text \<open>
  \<open>s.trim()\<close> removes white space and line terminators at both ends. Of the code
  units a \<open>char\<close> can hold these are TAB, LF, VT, FF, CR, SPACE and NBSP.
\<close>

definition is_ws :: "char \<Rightarrow> bool" where
  "is_ws c = (c \<in> set [CHR 0x09, CHR 0x0A, CHR 0x0B, CHR 0x0C, CHR 0x0D, CHR 0x20, CHR 0xA0])"

definition trim :: "string \<Rightarrow> string" where
  "trim s = rev (dropWhile is_ws (rev (dropWhile is_ws s)))"

section \<open>The inference client (services/geminiService.ts)\<close>

text \<open>
  What creating the client and awaiting \<open>ai.models.generateContent\<close> gives: a thrown
  value, or a response whose \<open>text\<close> may be \<open>undefined\<close>.
\<close>

datatype outcome = Rejects exn | Responds "string option"

text \<open>
  \<open>analyzeAudio\<close>, after the remote call. \<open>JSON.parse\<close> is a builtin and is taken as a
  parameter: it throws (\<open>Inl\<close>) or returns the parsed value, which the code casts to
  \<open>AnalysisResult\<close> without looking at it. \<open>!text\<close> holds for \<open>undefined\<close> and for
  the empty string.
\<close>

definition analyzeAudio :: "(string \<Rightarrow> exn + 'r) \<Rightarrow> outcome \<Rightarrow> exn + 'r" where
  "analyzeAudio JSON_parse response =
     (case response of
        Rejects e \<Rightarrow> Inl e
      | Responds text \<Rightarrow>
          (case text of
             None \<Rightarrow> Inl EmptyResponse
           | Some t \<Rightarrow> if t = [] then Inl EmptyResponse else JSON_parse t))"

section \<open>The handlers of the App component (App.tsx)\<close>

definition MAX_SIZE :: nat where
  "MAX_SIZE = 20 * 1024 * 1024"

definition too_large_message :: string where
  "too_large_message = ''File is too large. Please select an audio file under 20MB.''"

definition unexpected_message :: string where
  "unexpected_message = ''An unexpected error occurred during processing.''"

text \<open>\<open>err.message || "An unexpected error occurred during processing."\<close>\<close>

definition catch_message :: "exn \<Rightarrow> string" where
  "catch_message err =
     (case message err of
        None \<Rightarrow> unexpected_message
      | Some m \<Rightarrow> if m = [] then unexpected_message else m)"

text \<open>
  \<open>handleFileUpload\<close>, the synchronous part. \<open>file\<close> is \<open>event.target.files?.[0]\<close>.
  \<open>thrown\<close> is what the body of the \<open>try\<close> block throws while it creates the reader
  and starts the read, if anything: only that is inside the \<open>try\<close>; the two callbacks run
  later, from the event loop. The second component is the file whose read was started.
\<close>

definition handleFileUpload ::
  "File option \<Rightarrow> exn option \<Rightarrow> 'r App \<Rightarrow> 'r App \<times> File option" where
  "handleFileUpload file thrown a =
     (case file of
        None \<Rightarrow> (a, None)
      | Some f \<Rightarrow>
          if size_bytes f > MAX_SIZE
          then (a\<lparr>error := Some too_large_message, state := ERROR\<rparr>, None)
          else
            (let a1 = a\<lparr>fileName := Some (name f), state := UPLOADING, error := None\<rparr>
             in case thrown of
                  None \<Rightarrow> (a1, Some f)
                | Some err \<Rightarrow> (a1\<lparr>error := Some (catch_message err), state := ERROR\<rparr>, None)))"

text \<open>
  \<open>reader.onload\<close> up to its \<open>await\<close>: the payload is the second piece of the data URL
  split at commas, the MIME type is \<open>file.type || 'audio/mpeg'\<close>, the state becomes
  \<open>ANALYZING\<close> and \<open>analyzeAudio\<close> is called with the two (the second component).
\<close>

definition onload :: "File \<Rightarrow> string \<Rightarrow> 'r App \<Rightarrow> 'r App \<times> (string option \<times> string)" where
  "onload f dataUrl a =
     (let base64Data = index (split CHR '','' dataUrl) 1;
          mimeType = (if type_mime f = [] then ''audio/mpeg'' else type_mime f)
      in (a\<lparr>state := ANALYZING\<rparr>, (base64Data, mimeType)))"

text \<open>
  \<open>reader.onload\<close> after its \<open>await\<close>. A rejection leaves the \<open>async\<close> callback with
  nothing around it to catch it: the state stays as it is and the thrown value is reported as
  unhandled (the second component). Otherwise \<open>setResult(analysis)\<close> stores the value
  returned, whatever it is: when it is \<open>null\<close> the result cell holds \<open>null\<close> again.
\<close>

definition onload_resume ::
  "('r \<Rightarrow> truthiness) \<Rightarrow> exn + 'r \<Rightarrow> 'r App \<Rightarrow> 'r App \<times> exn option" where
  "onload_resume kind analysis a =
     (case analysis of
        Inl e \<Rightarrow> (a, Some e)
      | Inr r \<Rightarrow>
          (a\<lparr>result := (if kind r = IsNull then None else Some r), state := COMPLETED\<rparr>, None))"

text \<open>\<open>reader.onerror\<close> throws from a callback of the event loop: no handler sees it.\<close>

definition onerror :: "'r App \<Rightarrow> 'r App \<times> exn option" where
  "onerror a = (a, Some ReadFailure)"

text \<open>The \<open>onClick\<close> of "Try Again" and of "Upload New File": \<open>setState(AppState.IDLE)\<close>.\<close>

definition reset :: "'r App \<Rightarrow> 'r App" where
  "reset a = a\<lparr>state := IDLE\<rparr>"

section \<open>The page (the JSX returned by App)\<close>

text \<open>
  What the component renders, reduced to the blocks that depend on the state: the export
  button of the header, and under \<open>main\<close> the hero block with the file input, the loading
  block, the error card and the dashboard, each behind its own condition. The condition of
  the dashboard is \<open>state === AppState.COMPLETED && result && (...)\<close>: a falsy result is itself
  the value of the condition, and React shows nothing for \<open>null\<close>, \<open>false\<close> and the empty
  string, and the text \<open>0\<close> for the number 0.
\<close>

datatype 'r block =
    Hero
  | Loading string "string option"
  | ErrorCard "string option"
  | Dashboard 'r "string option"
  | Text string

record 'r page =
  exportButton :: bool
  blocks :: "'r block list"

definition render :: "('r \<Rightarrow> truthiness) \<Rightarrow> 'r App \<Rightarrow> 'r page" where
  "render kind a =
     \<lparr>exportButton = (state a = COMPLETED),
      blocks =
        (if state a = IDLE then [Hero] else []) @
        (if state a = UPLOADING \<or> state a = ANALYZING
         then [Loading (if state a = UPLOADING then ''Reading Audio...''
                        else ''AI Analysis in Progress...'') (fileName a)]
         else []) @
        (if state a = ERROR then [ErrorCard (error a)] else []) @
        (if state a = COMPLETED
         then (case result a of
                 None \<Rightarrow> []
               | Some r \<Rightarrow>
                   (case kind r of
                      IsTruthy \<Rightarrow> [Dashboard r (fileName a)]
                    | IsZero \<Rightarrow> [Text ''0'']
                    | _ \<Rightarrow> []))
         else [])\<rparr>"

text \<open>The file names, error messages and results that a page shows.\<close>

fun shown_fileName :: "'r block \<Rightarrow> string option" where
  "shown_fileName (Loading title n) = n"
| "shown_fileName (Dashboard r n) = n"
| "shown_fileName b = None"

fun shown_error :: "'r block \<Rightarrow> string option" where
  "shown_error (ErrorCard e) = e"
| "shown_error b = None"

fun shown_result :: "'r block \<Rightarrow> 'r option" where
  "shown_result (Dashboard r n) = Some r"
| "shown_result b = None"

definition visible_fileNames :: "'r page \<Rightarrow> string list" where
  "visible_fileNames p = List.map_filter shown_fileName (blocks p)"

definition visible_errors :: "'r page \<Rightarrow> string list" where
  "visible_errors p = List.map_filter shown_error (blocks p)"

definition visible_results :: "'r page \<Rightarrow> 'r list" where
  "visible_results p = List.map_filter shown_result (blocks p)"

section \<open>The application with its pending callbacks\<close>

text \<open>
  The component state together with the asynchronous operations in flight, the log of
  the calls made to \<open>analyzeAudio\<close> (file of origin, payload, MIME type) and the thrown
  values that nothing caught.
\<close>

datatype task = Reading File | Inferring File "string option" string

record 'r Sys =
  app :: "'r App"
  tasks :: "task list"
  calls :: "(File \<times> string option \<times> string) list"
  unhandled :: "exn list"

definition start :: "'r Sys" where
  "start = \<lparr>app = initial, tasks = [], calls = [], unhandled = []\<rparr>"

text \<open>
  The events: the user picks a file (or cancels the dialog), with what the \<open>try\<close> block
  throws, if anything; a started read completes with a data URL or fails; a call of
  \<open>analyzeAudio\<close> settles, with a thrown value or a result; the user presses a reset
  button. A callback runs only for an operation that was started. User events are not
  restricted to the states in which the page offers their control, so every state the
  page can reach is the outcome of some list of events.
\<close>

datatype 'r event =
    Select "File option" "exn option"
  | Loaded File string
  | ReadError File
  | Settled File "string option" string "exn + 'r"
  | Reset

fun step :: "('r \<Rightarrow> truthiness) \<Rightarrow> 'r Sys \<Rightarrow> 'r event \<Rightarrow> 'r Sys" where
  "step kind s (Select file thrown) =
     (case handleFileUpload file thrown (app s) of
        (a, started) \<Rightarrow>
          s\<lparr>app := a,
            tasks := tasks s @ (case started of None \<Rightarrow> [] | Some f \<Rightarrow> [Reading f])\<rparr>)"
| "step kind s (Loaded f dataUrl) =
     (if Reading f \<in> set (tasks s)
      then (case onload f dataUrl (app s) of
              (a, (base64Data, mimeType)) \<Rightarrow>
                s\<lparr>app := a,
                  tasks := remove1 (Reading f) (tasks s) @ [Inferring f base64Data mimeType],
                  calls := calls s @ [(f, base64Data, mimeType)]\<rparr>)
      else s)"
| "step kind s (ReadError f) =
     (if Reading f \<in> set (tasks s)
      then (case onerror (app s) of
              (a, e) \<Rightarrow>
                s\<lparr>app := a,
                  tasks := remove1 (Reading f) (tasks s),
                  unhandled := unhandled s @ (case e of None \<Rightarrow> [] | Some x \<Rightarrow> [x])\<rparr>)
      else s)"
| "step kind s (Settled f base64Data mimeType analysis) =
     (if Inferring f base64Data mimeType \<in> set (tasks s)
      then (case onload_resume kind analysis (app s) of
              (a, e) \<Rightarrow>
                s\<lparr>app := a,
                  tasks := remove1 (Inferring f base64Data mimeType) (tasks s),
                  unhandled := unhandled s @ (case e of None \<Rightarrow> [] | Some x \<Rightarrow> [x])\<rparr>)
      else s)"
| "step kind s Reset = s\<lparr>app := reset (app s)\<rparr>"

definition run :: "('r \<Rightarrow> truthiness) \<Rightarrow> 'r event list \<Rightarrow> 'r Sys" where
  "run kind evs = foldl (step kind) start evs"

section \<open>The Markdown export (downloadMarkdown)\<close>

text \<open>Template interpolation: \<open>${fileName}\<close> prints \<open>null\<close> as the text \<open>null\<close>.\<close>

definition fileName_text :: "string option \<Rightarrow> string" where
  "fileName_text fn = (case fn of None \<Rightarrow> ''null'' | Some n \<Rightarrow> n)"

definition sentiment_text :: "Sentiment \<Rightarrow> string" where
  "sentiment_text x =
     (case x of Positive \<Rightarrow> ''Positive'' | Neutral \<Rightarrow> ''Neutral'' | Negative \<Rightarrow> ''Negative'')"

definition item_line :: "ActionItem \<Rightarrow> string" where
  "item_line item = ''- [ ] **'' @ task item @ ''** (Assignee: '' @ assignee item @ '')''"

text \<open>The template literal of \<open>downloadMarkdown\<close>, before \<open>.trim()\<close>.\<close>

definition report_template :: "string option \<Rightarrow> AnalysisResult \<Rightarrow> string" where
  "report_template fn r =
     ''\<newline># Audio Analysis: '' @ fileName_text fn @
     ''\<newline>\<newline>## Executive Summary\<newline>'' @ executiveSummary r @
     ''\<newline>\<newline>## Sentiment Analysis\<newline>**Tone:** '' @ sentiment_text (sentiment r) @
     ''\<newline>**Reasoning:** '' @ sentimentReasoning r @
     ''\<newline>\<newline>## Action Items\<newline>'' @ join ''\<newline>'' (map item_line (actionItems r)) @
     ''\<newline>\<newline>## Full Transcription\<newline>'' @ transcription r @
     ''\<newline>    ''"

definition report_body :: "string option \<Rightarrow> AnalysisResult \<Rightarrow> string" where
  "report_body fn r = trim (report_template fn r)"

text \<open>\<open>`${fileName?.split('.')[0] || 'analysis'}_report.md`\<close>\<close>

definition report_name :: "string option \<Rightarrow> string" where
  "report_name fn =
     (case (case fn of None \<Rightarrow> None | Some n \<Rightarrow> index (split CHR ''.'' n) 0) of
        None \<Rightarrow> ''analysis''
      | Some b \<Rightarrow> if b = [] then ''analysis'' else b) @ ''_report.md''"

text \<open>The download that clicking the temporary anchor starts: name, MIME type, content.\<close>

record download =
  download_name :: string
  blob_type :: string
  content :: string

text \<open>
  \<open>downloadMarkdown\<close> calls no state setter: it returns the component state as it got
  it, and the download it started, if any.
\<close>

definition downloadMarkdown :: "AnalysisResult App \<Rightarrow> AnalysisResult App \<times> download option" where
  "downloadMarkdown a =
     (case result a of
        None \<Rightarrow> (a, None)
      | Some r \<Rightarrow>
          (a, Some \<lparr>download_name = report_name (fileName a),
                    blob_type = ''text/markdown'',
                    content = report_body (fileName a) r\<rparr>))"

section \<open>Values as they are at run time\<close>

text \<open>
  \<open>JSON.parse(text) as AnalysisResult\<close> checks nothing: what reaches the dashboard is
  whatever value the text denotes. Such a value is modelled as it is at run time; a number
  is kept as the text that printing it gives.
\<close>

datatype json =
    JNull
  | JBool bool
  | JNum string
  | JStr string
  | JArr "json list"
  | JObj "(string \<times> json) list"

text \<open>What stops rendering: a \<open>TypeError\<close>, or React refusing an object as a child.\<close>

datatype crash = TypeError | NotAReactChild

text \<open>
  Reading \<open>v.k\<close>, for the names the code reads (\<open>actionItems\<close>, \<open>task\<close>,
  \<open>assignee\<close>; none is a builtin property): \<open>null\<close> throws, an object gives the field or
  \<open>undefined\<close> (\<open>None\<close>), every other value gives \<open>undefined\<close>.
\<close>

fun property :: "json \<Rightarrow> string \<Rightarrow> crash + json option" where
  "property JNull k = Inl TypeError"
| "property (JObj kvs) k = Inr (map_of kvs k)"
| "property v k = Inr None"

text \<open>
  The text React shows for a child \<open>{v}\<close>: nothing for \<open>null\<close>, \<open>undefined\<close> and
  booleans, the text of a string or number, the children of an array one after the other;
  an object is refused.
\<close>

fun react_text :: "json \<Rightarrow> crash + string" and react_texts :: "json list \<Rightarrow> crash + string" where
  "react_text JNull = Inr []"
| "react_text (JBool b) = Inr []"
| "react_text (JNum n) = Inr n"
| "react_text (JStr s) = Inr s"
| "react_text (JArr xs) = react_texts xs"
| "react_text (JObj kvs) = Inl NotAReactChild"
| "react_texts [] = Inr []"
| "react_texts (x # xs) =
     (case react_text x of
        Inl c \<Rightarrow> Inl c
      | Inr t \<Rightarrow> (case react_texts xs of Inl c \<Rightarrow> Inl c | Inr ts \<Rightarrow> Inr (t @ ts)))"

definition child_text :: "json option \<Rightarrow> crash + string" where
  "child_text v = (case v of None \<Rightarrow> Inr [] | Some x \<Rightarrow> react_text x)"

text \<open>The classification of run-time values; a number is 0 when it prints as \<open>0\<close>.\<close>

fun json_kind :: "json \<Rightarrow> truthiness" where
  "json_kind JNull = IsNull"
| "json_kind (JBool b) = (if b then IsTruthy else IsFalseOrEmpty)"
| "json_kind (JNum n) = (if n = ''0'' then IsZero else IsTruthy)"
| "json_kind (JStr s) = (if s = [] then IsFalseOrEmpty else IsTruthy)"
| "json_kind (JArr xs) = IsTruthy"
| "json_kind (JObj kvs) = IsTruthy"

text \<open>
  The dashboard is rendered in two steps. While \<open>App\<close> runs, the JSX reads the fields of
  the result, and the callback of \<open>result.actionItems.map\<close> reads \<open>item.task\<close> and
  \<open>item.assignee\<close> of every item; a \<open>TypeError\<close> there stops the render. Then React turns
  the values read into text, in the order of the page.
\<close>

definition read_item :: "json \<Rightarrow> crash + (json option \<times> json option)" where
  "read_item item =
     (case property item ''task'' of
        Inl c \<Rightarrow> Inl c
      | Inr t \<Rightarrow> (case property item ''assignee'' of Inl c \<Rightarrow> Inl c | Inr a \<Rightarrow> Inr (t, a)))"

fun read_items :: "json list \<Rightarrow> crash + (json option \<times> json option) list" where
  "read_items [] = Inr []"
| "read_items (item # items) =
     (case read_item item of
        Inl c \<Rightarrow> Inl c
      | Inr vs \<Rightarrow> (case read_items items of Inl c \<Rightarrow> Inl c | Inr vss \<Rightarrow> Inr (vs # vss)))"

text \<open>\<open>result.actionItems.map(...)\<close>: anything but an array has no \<open>map\<close> to call.\<close>

definition read_actionItems :: "json \<Rightarrow> crash + (json option \<times> json option) list" where
  "read_actionItems r =
     (case property r ''actionItems'' of
        Inl c \<Rightarrow> Inl c
      | Inr None \<Rightarrow> Inl TypeError
      | Inr (Some v) \<Rightarrow> (case v of JArr items \<Rightarrow> read_items items | _ \<Rightarrow> Inl TypeError))"

text \<open>The texts of one card: what is shown for \<open>{item.task}\<close> and for \<open>{item.assignee}\<close>.\<close>

definition item_text :: "json option \<times> json option \<Rightarrow> crash + (string \<times> string)" where
  "item_text vs =
     (case child_text (fst vs) of
        Inl c \<Rightarrow> Inl c
      | Inr shown_task \<Rightarrow>
          (case child_text (snd vs) of
             Inl c \<Rightarrow> Inl c
           | Inr shown_assignee \<Rightarrow> Inr (shown_task, shown_assignee)))"

fun item_texts :: "(json option \<times> json option) list \<Rightarrow> crash + (string \<times> string) list" where
  "item_texts [] = Inr []"
| "item_texts (vs # vss) =
     (case item_text vs of
        Inl c \<Rightarrow> Inl c
      | Inr cell \<Rightarrow> (case item_texts vss of Inl c \<Rightarrow> Inl c | Inr cells \<Rightarrow> Inr (cell # cells)))"

text \<open>The list of action items on the page (App.tsx, the card of \<open>result.actionItems.map\<close>).\<close>

definition renderActionItems :: "json \<Rightarrow> crash + (string \<times> string) list" where
  "renderActionItems r =
     (case read_actionItems r of Inl c \<Rightarrow> Inl c | Inr vss \<Rightarrow> item_texts vss)"

text \<open>
  The whole dashboard. The values read, in the order of the JSX: the summary, the action
  items, the transcription, the sentiment and its reasoning.
\<close>

record children =
  read_summary :: "json option"
  read_cards :: "(json option \<times> json option) list"
  read_transcription :: "json option"
  read_sentiment :: "json option"
  read_reasoning :: "json option"

definition read_dashboard :: "json \<Rightarrow> crash + children" where
  "read_dashboard r =
     (case property r ''executiveSummary'' of
        Inl c \<Rightarrow> Inl c
      | Inr s \<Rightarrow>
          (case read_actionItems r of
             Inl c \<Rightarrow> Inl c
           | Inr vss \<Rightarrow>
               (case property r ''transcription'' of
                  Inl c \<Rightarrow> Inl c
                | Inr t \<Rightarrow>
                    (case property r ''sentiment'' of
                       Inl c \<Rightarrow> Inl c
                     | Inr m \<Rightarrow>
                         (case property r ''sentimentReasoning'' of
                            Inl c \<Rightarrow> Inl c
                          | Inr w \<Rightarrow>
                              Inr \<lparr>read_summary = s, read_cards = vss, read_transcription = t,
                                   read_sentiment = m, read_reasoning = w\<rparr>)))))"

text \<open>
  What the dashboard shows: the summary, the cards (task, assignee), the placeholder of an
  empty list (\<open>result.actionItems.length === 0\<close>), the transcript, the sentiment badge and
  its reasoning, and the name of the processed file.
\<close>

record dashboard =
  shown_summary :: string
  shown_cards :: "(string \<times> string) list"
  shown_placeholder :: bool
  shown_transcript :: string
  shown_sentiment :: string
  shown_reasoning :: string
  shown_file :: string

definition show_dashboard :: "children \<Rightarrow> string option \<Rightarrow> crash + dashboard" where
  "show_dashboard cs fn =
     (case child_text (read_summary cs) of
        Inl c \<Rightarrow> Inl c
      | Inr s \<Rightarrow>
          (case item_texts (read_cards cs) of
             Inl c \<Rightarrow> Inl c
           | Inr cells \<Rightarrow>
               (case child_text (read_transcription cs) of
                  Inl c \<Rightarrow> Inl c
                | Inr t \<Rightarrow>
                    (case child_text (read_sentiment cs) of
                       Inl c \<Rightarrow> Inl c
                     | Inr m \<Rightarrow>
                         (case child_text (read_reasoning cs) of
                            Inl c \<Rightarrow> Inl c
                          | Inr w \<Rightarrow>
                              Inr \<lparr>shown_summary = s, shown_cards = cells,
                                   shown_placeholder = (read_cards cs = []),
                                   shown_transcript = t, shown_sentiment = m,
                                   shown_reasoning = w,
                                   shown_file = (case fn of None \<Rightarrow> [] | Some n \<Rightarrow> n)\<rparr>)))))"

definition render_dashboard :: "json \<Rightarrow> string option \<Rightarrow> crash + dashboard" where
  "render_dashboard r fn =
     (case read_dashboard r of Inl c \<Rightarrow> Inl c | Inr cs \<Rightarrow> show_dashboard cs fn)"

text \<open>An action item as the declared schema wants it, but for the assignee, which may be absent.\<close>

definition item_fields_ok :: "json \<Rightarrow> bool" where
  "item_fields_ok item =
     (case item of
        JObj kvs \<Rightarrow>
          (case map_of kvs ''task'' of Some (JStr t) \<Rightarrow> True | _ \<Rightarrow> False) \<and>
          (case map_of kvs ''assignee'' of None \<Rightarrow> True | Some (JStr s) \<Rightarrow> True | _ \<Rightarrow> False)
      | _ \<Rightarrow> False)"

definition lacks_assignee :: "json \<Rightarrow> bool" where
  "lacks_assignee item = (property item ''assignee'' = Inr None)"

text \<open>
  A value as the declared schema wants it (an object with the four texts and the array of
  action items), but for the assignees.
\<close>

definition is_text :: "json option \<Rightarrow> bool" where
  "is_text v = (case v of Some (JStr s) \<Rightarrow> True | _ \<Rightarrow> False)"

definition schema_ok_but_assignee :: "json \<Rightarrow> bool" where
  "schema_ok_but_assignee v =
     (case v of
        JObj kvs \<Rightarrow>
          is_text (map_of kvs ''transcription'') \<and>
          is_text (map_of kvs ''executiveSummary'') \<and>
          (case map_of kvs ''actionItems'' of
             Some (JArr items) \<Rightarrow> list_all item_fields_ok items
           | _ \<Rightarrow> False) \<and>
          is_text (map_of kvs ''sentiment'') \<and>
          is_text (map_of kvs ''sentimentReasoning'')
      | _ \<Rightarrow> False)"

section \<open>The data URL of a read\<close>

text \<open>
  Base64 (RFC 4648): three bytes give four digits of the alphabet, and one or two bytes
  left over give two or three digits and the padding \<open>=\<close>.
\<close>

definition base64_alphabet :: string where
  "base64_alphabet = ''ABCDEFGHIJKLMNOPQRSTUVWXYZabcdefghijklmnopqrstuvwxyz0123456789+/=''"

definition base64_digit :: "nat \<Rightarrow> char" where
  "base64_digit n = base64_alphabet ! (n mod 64)"

fun base64 :: "8 word list \<Rightarrow> string" where
  "base64 (a # b # c # rest) =
     [base64_digit (unat a div 4),
      base64_digit ((unat a mod 4) * 16 + unat b div 16),
      base64_digit ((unat b mod 16) * 4 + unat c div 64),
      base64_digit (unat c mod 64)] @ base64 rest"
| "base64 [a, b] =
     [base64_digit (unat a div 4),
      base64_digit ((unat a mod 4) * 16 + unat b div 16),
      base64_digit ((unat b mod 16) * 4),
      CHR ''='']"
| "base64 [a] =
     [base64_digit (unat a div 4), base64_digit ((unat a mod 4) * 16), CHR ''='', CHR ''='']"
| "base64 [] = []"


text \<open>
  The result of \<open>reader.readAsDataURL(file)\<close> when the read completes: \<open>data:\<close>, the media
  type, \<open>;base64,\<close> and the bytes of the file in base64. The media type is the type of the
  file; for a file without a type browsers write \<open>application/octet-stream\<close>.
\<close>

definition dataURL :: "string \<Rightarrow> string \<Rightarrow> string" where
  "dataURL mediaType b64 = ''data:'' @ mediaType @ '';base64,'' @ b64"

definition readAsDataURL :: "File \<Rightarrow> string" where
  "readAsDataURL f =
     dataURL (if type_mime f = [] then ''application/octet-stream'' else type_mime f)
       (base64 (contents f))"


section \<open>Properties stated by the specification, and what the code keeps\<close>






text \<open>
  The specification's base name, in its words: the name with its extension removed, that
  is, without its last dot and what follows it.
\<close>

definition spec_basename :: "string \<Rightarrow> string" where
  "spec_basename n =
     (if CHR ''.'' \<in> set n then rev (tl (dropWhile (\<lambda>c. c \<noteq> CHR ''.'') (rev n))) else n)"

text \<open>No operation in flight, and no logged call, is for a file over the size limit.\<close>

fun task_file :: "task \<Rightarrow> File" where
  "task_file (Reading f) = f"
| "task_file (Inferring f base64Data mimeType) = f"

definition within_limit :: "'r Sys \<Rightarrow> bool" where
  "within_limit s =
     (list_all (\<lambda>t. size_bytes (task_file t) \<le> MAX_SIZE) (tasks s) \<and>
      list_all (\<lambda>c. size_bytes (fst c) \<le> MAX_SIZE) (calls s))"

section \<open>Sample inputs\<close>

text \<open>A value of the declared type \<open>AnalysisResult\<close> is an object, hence truthy.\<close>

definition typed_kind :: "AnalysisResult \<Rightarrow> truthiness" where
  "typed_kind r = IsTruthy"

definition sample_file :: File where
  "sample_file =
     \<lparr>name = ''meeting.mp3'', type_mime = ''audio/mpeg'', contents = [72, 101, 108, 108, 111]\<rparr>"


definition big_file :: File where
  "big_file =
     \<lparr>name = ''allhands.wav'', type_mime = ''audio/wav'', contents = replicate 20971521 0\<rparr>"


definition sample_url :: string where
  "sample_url = ''data:audio/mpeg;base64,SGVsbG8=''"

definition sample_result :: AnalysisResult where
  "sample_result =
     \<lparr>transcription = ''hello'', executiveSummary = ''s'',
      actionItems = [\<lparr>task = ''Send the notes'', assignee = ''Unassigned''\<rparr>],
      sentiment = Neutral, sentimentReasoning = ''r''\<rparr>"

text \<open>A response that conforms to the declared schema but for one assignee, and its value.\<close>

definition sample_text :: string where
  \<open>sample_text =
     ''{"transcription":"hello","executiveSummary":"s","actionItems":[{"task":"Send the notes"}],"sentiment":"Neutral","sentimentReasoning":"r"}''\<close>

definition sample_value :: json where
  "sample_value =
     JObj [(''transcription'', JStr ''hello''), (''executiveSummary'', JStr ''s''),
           (''actionItems'', JArr [JObj [(''task'', JStr ''Send the notes'')]]),
           (''sentiment'', JStr ''Neutral''), (''sentimentReasoning'', JStr ''r'')]"

text \<open>\<open>JSON.parse\<close> on the sample text; its answer on any other text is not used.\<close>

definition JSON_parse_sample :: "string \<Rightarrow> exn + json" where
  "JSON_parse_sample t =
     (if t = sample_text then Inr sample_value else Inl (Exn (Some ''Unexpected token'')))"

section \<open>Lemmas on the string helpers\<close>

lemma split_not_Nil: "split sep s \<noteq> []"
  by (induction s) (auto split: list.splits)

lemma index_split_0: "index (split sep s) 0 = Some (takeWhile (\<lambda>c. c \<noteq> sep) s)"
proof (induction s)
  case Nil
  show ?case by simp
next
  case (Cons c cs)
  show ?case
  proof (cases "c = sep")
    case True
    then show ?thesis by simp
  next
    case False
    obtain p ps where ps: "split sep cs = p # ps"
      using split_not_Nil [of sep cs] by (cases "split sep cs") auto
    with Cons False show ?thesis by simp
  qed
qed



lemma takeWhile_upto_sep:
  "sep \<notin> set a \<Longrightarrow> takeWhile (\<lambda>c. c \<noteq> sep) (a @ sep # b) = a"
  by (induction a) auto

lemma dropWhile_upto_sep:
  "sep \<notin> set a \<Longrightarrow> dropWhile (\<lambda>c. c \<noteq> sep) (a @ sep # b) = sep # b"
  by (induction a) auto



section \<open>The Markdown export\<close>


lemma spec_basename_one_dot:
  assumes "count_list n (CHR ''.'') \<le> 1"
  shows "spec_basename n = takeWhile (\<lambda>c. c \<noteq> CHR ''.'') n"
proof (cases "CHR ''.'' \<in> set n")
  case False
  then have whole: "takeWhile (\<lambda>c. c \<noteq> CHR ''.'') n = n"
    by (auto simp: takeWhile_eq_all_conv)
  show ?thesis
    unfolding spec_basename_def whole using False by simp
next
  case True
  then obtain a b where n: "n = a @ CHR ''.'' # b" and a: "CHR ''.'' \<notin> set a"
    by (meson split_list_first)
  from assms have "count_list b (CHR ''.'') = 0"
    by (simp add: n)
  then have b: "CHR ''.'' \<notin> set b"
    by (simp add: count_list_0_iff)
  have front: "takeWhile (\<lambda>c. c \<noteq> CHR ''.'') n = a"
    using a by (simp add: n takeWhile_upto_sep)
  have "dropWhile (\<lambda>c. c \<noteq> CHR ''.'') (rev b @ CHR ''.'' # rev a) = CHR ''.'' # rev a"
    using b by (simp add: dropWhile_upto_sep)
  then have "spec_basename n = a"
    by (simp add: spec_basename_def n)
  with front show ?thesis by simp
qed

lemma report_name_Some:
  "report_name (Some n) =
     (if takeWhile (\<lambda>c. c \<noteq> CHR ''.'') n = [] then ''analysis''
      else takeWhile (\<lambda>c. c \<noteq> CHR ''.'') n) @ ''_report.md''"
  by (simp add: report_name_def index_split_0)

text \<open>
  Claim C8, as amended. For every original file name with at most one dot that is not empty
  and does not start with the dot, the download name of the Markdown export is the name
  with its extension removed, followed by \<open>_report.md\<close>; \<open>meeting.mp3\<close> gives
  \<open>meeting_report.md\<close>. With no file name, or a name that is empty or starts with a dot,
  the download name is \<open>analysis_report.md\<close>.
\<close>

theorem report_name_one_dot:
  "report_name None = ''analysis_report.md'' \<and>
   (n = [] \<or> hd n = CHR ''.'' \<longrightarrow> report_name (Some n) = ''analysis_report.md'') \<and>
   (count_list n (CHR ''.'') \<le> 1 \<and> n \<noteq> [] \<and> hd n \<noteq> CHR ''.'' \<longrightarrow>
      report_name (Some n) = spec_basename n @ ''_report.md'') \<and>
   report_name (Some ''meeting.mp3'') = ''meeting_report.md''"
proof (intro conjI impI)
  show "report_name None = ''analysis_report.md''"
    by (simp add: report_name_def)
  show "report_name (Some ''meeting.mp3'') = ''meeting_report.md''"
    by (simp add: report_name_def)
next
  assume "n = [] \<or> hd n = CHR ''.''"
  then have "takeWhile (\<lambda>c. c \<noteq> CHR ''.'') n = []"
    by (cases n) auto
  then show "report_name (Some n) = ''analysis_report.md''"
    by (simp add: report_name_Some)
next
  assume h: "count_list n (CHR ''.'') \<le> 1 \<and> n \<noteq> [] \<and> hd n \<noteq> CHR ''.''"
  then have "takeWhile (\<lambda>c. c \<noteq> CHR ''.'') n \<noteq> []"
    by (cases n) auto
  with h show "report_name (Some n) = spec_basename n @ ''_report.md''"
    by (simp add: report_name_Some spec_basename_one_dot)
qed

theorem report_name_one_dot_witness:
  "count_list ''notes.wav'' (CHR ''.'') \<le> 1 \<and> ''notes.wav'' \<noteq> [] \<and> hd ''notes.wav'' \<noteq> CHR ''.'' \<and>
   report_name (Some ''notes.wav'') = spec_basename ''notes.wav'' @ ''_report.md'' \<and>
   report_name (Some ''notes.wav'') = ''notes_report.md'' \<and>
   hd ''.mp3'' = CHR ''.'' \<and> report_name (Some ''.mp3'') = ''analysis_report.md''"
  using report_name_one_dot [of "''notes.wav''"] report_name_one_dot [of "''.mp3''"]
  by (simp add: spec_basename_def)

text \<open>
  Claim C8 as stated fails for a name with two dots: the export of \<open>team.sync.mp3\<close> is
  named \<open>team_report.md\<close>, not \<open>team.sync_report.md\<close>.
\<close>

theorem report_name_basename_counterexample:
  "report_name (Some ''team.sync.mp3'') = ''team_report.md'' \<and>
   spec_basename ''team.sync.mp3'' @ ''_report.md'' = ''team.sync_report.md'' \<and>
   report_name (Some ''team.sync.mp3'') \<noteq> spec_basename ''team.sync.mp3'' @ ''_report.md''"
  by (simp add: report_name_def spec_basename_def)


text \<open>
  Claim C10. With no AnalysisResult present, the Markdown export does nothing: it starts no
  download and returns the component state (state tag, result, error, file name) as it was.
\<close>

theorem export_without_result:
  "result a = None \<Longrightarrow> downloadMarkdown a = (a, None)"
  by (simp add: downloadMarkdown_def)

theorem export_without_result_witness:
  "result (initial :: AnalysisResult App) = None \<and>
   downloadMarkdown initial = (initial, None) \<and>
   snd (downloadMarkdown (initial\<lparr>state := ERROR, error := Some too_large_message,
                                  fileName := Some ''meeting.mp3''\<rparr>)) = None"
  using export_without_result [of initial]
    export_without_result [of "initial\<lparr>state := ERROR, error := Some too_large_message,
                                  fileName := Some ''meeting.mp3''\<rparr>"]
  by (simp add: initial_def)

section \<open>The state machine\<close>

lemma foldl_step_invariant:
  assumes "\<And>s e. P s \<Longrightarrow> P (step kind s e)" and "P s"
  shows "P (foldl (step kind) s evs)"
  using assms(2) by (induction evs arbitrary: s) (auto intro: assms(1))

lemma big_file_size: "size_bytes big_file = 20971521"
  by (simp only: size_bytes_def big_file_def File.simps length_replicate)

lemma sample_file_size: "size_bytes sample_file = 5"
  by (simp add: size_bytes_def sample_file_def)

lemma sample_file_name: "name sample_file = ''meeting.mp3''"
  by (simp add: sample_file_def)

lemma sample_file_type: "type_mime sample_file = ''audio/mpeg''"
  by (simp add: sample_file_def)

lemma sample_file_url: "readAsDataURL sample_file = sample_url"
  by (simp add: readAsDataURL_def dataURL_def sample_url_def sample_file_def base64_digit_def
      base64_alphabet_def)

lemmas eval_defs = run_def start_def initial_def handleFileUpload_def onload_def
  onload_resume_def onerror_def reset_def MAX_SIZE_def big_file_size sample_file_size
  sample_file_name sample_file_type sample_url_def typed_kind_def Let_def

lemma failed_again_run:
  "run typed_kind [Select (Some sample_file) None, Loaded sample_file sample_url,
        Settled sample_file (Some ''SGVsbG8='') ''audio/mpeg'' (Inr r), Reset,
        Select (Some big_file) None] =
   \<lparr>app = \<lparr>state = ERROR, error = Some too_large_message, result = Some r,
           fileName = Some ''meeting.mp3''\<rparr>,
    tasks = [], calls = [(sample_file, Some ''SGVsbG8='', ''audio/mpeg'')], unhandled = []\<rparr>"
  by (simp add: eval_defs)

subsection \<open>Failures after the read has started\<close>

text \<open>
  Claim C1, at the failing input: a file under the size limit whose model response has no
  text. The inference client fails with EmptyResponse and the state never becomes
  \<open>COMPLETED\<close>, but the failure is thrown in the \<open>async\<close> callback \<open>reader.onload\<close>,
  outside the \<open>try\<close> block of \<open>handleFileUpload\<close>: nothing catches it, no error message
  is stored and the state stays \<open>ANALYZING\<close> instead of becoming \<open>ERROR\<close>.
\<close>

theorem empty_response_stays_ANALYZING:
  "analyzeAudio JSON_parse (Responds None) = Inl EmptyResponse \<and>
   analyzeAudio JSON_parse (Responds (Some [])) = Inl EmptyResponse \<and>
   onload_resume kind (analyzeAudio JSON_parse (Responds None)) a = (a, Some EmptyResponse) \<and>
   run kind [Select (Some sample_file) None, Loaded sample_file sample_url,
        Settled sample_file (Some ''SGVsbG8='') ''audio/mpeg''
          (analyzeAudio JSON_parse (Responds None))] =
   \<lparr>app = \<lparr>state = ANALYZING, error = None, result = None, fileName = Some ''meeting.mp3''\<rparr>,
    tasks = [], calls = [(sample_file, Some ''SGVsbG8='', ''audio/mpeg'')],
    unhandled = [EmptyResponse]\<rparr>"
  by (simp add: analyzeAudio_def eval_defs)

text \<open>
  Claim C2, at the failing input: a file under the size limit whose read fails.
  \<open>reader.onerror\<close> throws "Failed to read file" from a callback of the event loop, after
  \<open>handleFileUpload\<close> has left its \<open>try\<close> block: nothing catches it, no error message is
  stored and the state stays \<open>UPLOADING\<close> instead of becoming \<open>ERROR\<close>.
\<close>

theorem read_failure_stays_UPLOADING:
  "onerror a = (a, Some ReadFailure) \<and>
   run kind [Select (Some sample_file) None, ReadError sample_file] =
   \<lparr>app = \<lparr>state = UPLOADING, error = None, result = None, fileName = Some ''meeting.mp3''\<rparr>,
    tasks = [], calls = [], unhandled = [ReadFailure]\<rparr>"
  by (simp add: eval_defs)

subsection \<open>The invariant of the state tag\<close>















text \<open>
  Without the condition the result half fails: a response whose text is \<open>null\<close> is parsed
  to \<open>null\<close>, and the state becomes \<open>COMPLETED\<close> with the result cell still \<open>null\<close>.
\<close>

lemma null_response_completes_without_result:
  "run json_kind [Select (Some sample_file) None, Loaded sample_file sample_url,
        Settled sample_file (Some ''SGVsbG8='') ''audio/mpeg'' (Inr JNull)] =
   \<lparr>app = \<lparr>state = COMPLETED, error = None, result = None, fileName = Some ''meeting.mp3''\<rparr>,
    tasks = [], calls = [(sample_file, Some ''SGVsbG8='', ''audio/mpeg'')], unhandled = []\<rparr>"
  by (simp add: eval_defs)




subsection \<open>Try Again\<close>

text \<open>
  Claim C4. From the \<open>ERROR\<close> state, "Try Again" sets the state to \<open>IDLE\<close>, and the page
  then consists of the hero block alone: it shows no file name, no error message and no
  AnalysisResult, and no export button.
\<close>

theorem try_again_shows_nothing:
  "state a = ERROR \<Longrightarrow>
   state (reset a) = IDLE \<and>
   render kind (reset a) = \<lparr>exportButton = False, blocks = [Hero]\<rparr> \<and>
   visible_fileNames (render kind (reset a)) = [] \<and>
   visible_errors (render kind (reset a)) = [] \<and>
   visible_results (render kind (reset a)) = []"
  by (simp add: reset_def render_def visible_fileNames_def visible_errors_def
      visible_results_def List.map_filter_simps split: option.splits)

theorem try_again_shows_nothing_witness:
  "state (app (run typed_kind [Select (Some sample_file) None, Loaded sample_file sample_url,
        Settled sample_file (Some ''SGVsbG8='') ''audio/mpeg'' (Inr sample_result), Reset,
        Select (Some big_file) None])) = ERROR \<and>
   visible_errors (render typed_kind (app (run typed_kind [Select (Some sample_file) None, Loaded sample_file sample_url,
        Settled sample_file (Some ''SGVsbG8='') ''audio/mpeg'' (Inr sample_result), Reset,
        Select (Some big_file) None]))) = [too_large_message] \<and>
   render typed_kind (reset (app (run typed_kind [Select (Some sample_file) None, Loaded sample_file sample_url,
        Settled sample_file (Some ''SGVsbG8='') ''audio/mpeg'' (Inr sample_result), Reset,
        Select (Some big_file) None]))) = \<lparr>exportButton = False, blocks = [Hero]\<rparr> \<and>
   visible_fileNames (render typed_kind (reset (app (run typed_kind [Select (Some sample_file) None,
        Loaded sample_file sample_url,
        Settled sample_file (Some ''SGVsbG8='') ''audio/mpeg'' (Inr sample_result), Reset,
        Select (Some big_file) None])))) = [] \<and>
   visible_errors (render typed_kind (reset (app (run typed_kind [Select (Some sample_file) None,
        Loaded sample_file sample_url,
        Settled sample_file (Some ''SGVsbG8='') ''audio/mpeg'' (Inr sample_result), Reset,
        Select (Some big_file) None])))) = [] \<and>
   visible_results (render typed_kind (reset (app (run typed_kind [Select (Some sample_file) None,
        Loaded sample_file sample_url,
        Settled sample_file (Some ''SGVsbG8='') ''audio/mpeg'' (Inr sample_result), Reset,
        Select (Some big_file) None])))) = []"
  using try_again_shows_nothing [of "app (run typed_kind [Select (Some sample_file) None,
        Loaded sample_file sample_url,
        Settled sample_file (Some ''SGVsbG8='') ''audio/mpeg'' (Inr sample_result), Reset,
        Select (Some big_file) None])"]
  by (simp add: failed_again_run render_def reset_def visible_fileNames_def visible_errors_def
      visible_results_def List.map_filter_simps)

subsection \<open>The size limit\<close>

lemma handleFileUpload_started:
  "handleFileUpload chosen thrown a = (a', Some f) \<Longrightarrow> size_bytes f \<le> MAX_SIZE"
  by (auto simp: handleFileUpload_def Let_def split: option.splits if_splits)

lemma list_all_remove1: "list_all P xs \<Longrightarrow> list_all P (remove1 x xs)"
  by (induction xs) auto

lemma within_limit_step:
  assumes "within_limit s"
  shows "within_limit (step kind s e)"
proof (cases e)
  case (Select chosen thrown)
  obtain a' started where h: "handleFileUpload chosen thrown (app s) = (a', started)"
    by (cases "handleFileUpload chosen thrown (app s)")
  show ?thesis
  proof (cases started)
    case None
    with assms h Select show ?thesis by (simp add: within_limit_def)
  next
    case (Some f)
    with h have "size_bytes f \<le> MAX_SIZE" by (simp add: handleFileUpload_started)
    with assms h Select Some show ?thesis by (simp add: within_limit_def)
  qed
next
  case (Loaded f dataUrl)
  show ?thesis
  proof (cases "Reading f \<in> set (tasks s)")
    case False
    with assms Loaded show ?thesis by simp
  next
    case True
    with assms have "size_bytes f \<le> MAX_SIZE"
      by (auto simp: within_limit_def list_all_iff)
    with assms Loaded True show ?thesis
      by (simp add: within_limit_def list_all_remove1 onload_def Let_def)
  qed
next
  case (ReadError f)
  with assms show ?thesis
    by (simp add: within_limit_def list_all_remove1 onerror_def)
next
  case (Settled f b m analysis)
  with assms show ?thesis
    by (auto simp: within_limit_def list_all_remove1 split: prod.splits)
next
  case Reset
  with assms show ?thesis by (simp add: within_limit_def)
qed

lemma within_limit_run: "within_limit (run kind evs)"
  unfolding run_def
proof (rule foldl_step_invariant [where P = within_limit])
  show "within_limit (step kind s e)" if "within_limit s" for s e
    using that by (rule within_limit_step)
  show "within_limit (start :: 'a Sys)"
    by (simp add: within_limit_def start_def)
qed

text \<open>
  Claim C5. For every selected file of at least 20 MiB + 1 byte, \<open>handleFileUpload\<close>
  stores the size error message, sets the state to \<open>ERROR\<close> and starts no read; and in
  no run of the application is a read or an inference call for that file ever in flight, or
  a call of the inference client for it ever made.
\<close>

theorem oversize_rejected:
  "20 * 1024 * 1024 + 1 \<le> size_bytes f \<Longrightarrow>
   handleFileUpload (Some f) thrown a =
     (a\<lparr>error := Some too_large_message, state := ERROR\<rparr>, None) \<and>
   step kind s (Select (Some f) thrown) =
     s\<lparr>app := (app s)\<lparr>error := Some too_large_message, state := ERROR\<rparr>\<rparr> \<and>
   Reading f \<notin> set (tasks (run kind evs)) \<and>
   (\<forall>b m. Inferring f b m \<notin> set (tasks (run kind evs))) \<and>
   (\<forall>b m. (f, b, m) \<notin> set (calls (run kind evs)))"
proof -
  assume big: "20 * 1024 * 1024 + 1 \<le> size_bytes f"
  then have over: "size_bytes f > MAX_SIZE"
    by (simp add: MAX_SIZE_def)
  then have handler: "handleFileUpload (Some f) thrown a =
      (a\<lparr>error := Some too_large_message, state := ERROR\<rparr>, None)"
    by (simp add: handleFileUpload_def)
  from over have stepped: "step kind s (Select (Some f) thrown) =
      s\<lparr>app := (app s)\<lparr>error := Some too_large_message, state := ERROR\<rparr>\<rparr>"
    by (simp add: handleFileUpload_def)
  have lim: "within_limit (run kind evs)"
    by (rule within_limit_run)
  have "Reading f \<notin> set (tasks (run kind evs))"
    using lim over by (fastforce simp: within_limit_def list_all_iff)
  moreover have "Inferring f b m \<notin> set (tasks (run kind evs))" for b m
    using lim over by (fastforce simp: within_limit_def list_all_iff)
  moreover have "(f, b, m) \<notin> set (calls (run kind evs))" for b m
    using lim over by (fastforce simp: within_limit_def list_all_iff)
  ultimately show ?thesis
    using handler stepped by simp
qed

theorem oversize_rejected_witness:
  "20 * 1024 * 1024 + 1 \<le> size_bytes big_file \<and>
   handleFileUpload (Some big_file) None (initial :: AnalysisResult App) =
     (\<lparr>state = ERROR, error = Some too_large_message, result = None, fileName = None\<rparr>, None) \<and>
   run typed_kind [Select (Some big_file) None, Loaded big_file sample_url] =
     (\<lparr>app = \<lparr>state = ERROR, error = Some too_large_message, result = None, fileName = None\<rparr>,
       tasks = [], calls = [], unhandled = []\<rparr> :: AnalysisResult Sys) \<and>
   (big_file, Some ''SGVsbG8='', ''audio/wav'') \<notin>
     set (calls (run typed_kind [Select (Some big_file) None, Loaded big_file sample_url] :: AnalysisResult Sys))"
  using oversize_rejected [where f = big_file and thrown = None
      and a = "initial :: AnalysisResult App" and kind = typed_kind and s = start
      and evs = "[Select (Some big_file) None, Loaded big_file sample_url]"]
  by (simp add: eval_defs)

subsection \<open>Ingestion\<close>















section \<open>A response that lacks an assignee\<close>

lemma read_item_fields_ok:
  assumes "item_fields_ok item"
  shows "\<exists>vs cell. read_item item = Inr vs \<and> item_text vs = Inr cell \<and>
           (lacks_assignee item \<longrightarrow> snd cell = []) \<and>
           (\<forall>s. property item ''assignee'' = Inr (Some (JStr s)) \<longrightarrow> snd cell = s) \<and>
           (\<forall>k. property item ''task'' = Inr (Some (JStr k)) \<longrightarrow> fst cell = k)"
proof -
  from assms obtain kvs where item: "item = JObj kvs"
    by (cases item) (simp_all add: item_fields_ok_def)
  from assms item obtain t where t: "map_of kvs ''task'' = Some (JStr t)"
    by (auto simp: item_fields_ok_def split: option.splits json.splits)
  from assms item
  have "map_of kvs ''assignee'' = None \<or> (\<exists>s. map_of kvs ''assignee'' = Some (JStr s))"
    by (auto simp: item_fields_ok_def split: option.splits json.splits)
  then show ?thesis
  proof
    assume "map_of kvs ''assignee'' = None"
    with item t show ?thesis
      by (simp add: read_item_def item_text_def child_text_def lacks_assignee_def)
  next
    assume "\<exists>s. map_of kvs ''assignee'' = Some (JStr s)"
    then obtain s where "map_of kvs ''assignee'' = Some (JStr s)" ..
    with item t show ?thesis
      by (simp add: read_item_def item_text_def child_text_def lacks_assignee_def)
  qed
qed

lemma read_items_fields_ok:
  assumes "list_all item_fields_ok items"
  shows "\<exists>vss cells. read_items items = Inr vss \<and> item_texts vss = Inr cells \<and>
           list_all2 (\<lambda>item cell.
             (lacks_assignee item \<longrightarrow> snd cell = []) \<and>
             (\<forall>s. property item ''assignee'' = Inr (Some (JStr s)) \<longrightarrow> snd cell = s) \<and>
             (\<forall>k. property item ''task'' = Inr (Some (JStr k)) \<longrightarrow> fst cell = k)) items cells"
  using assms
proof (induction items)
  case Nil
  show ?case by simp
next
  case (Cons item items)
  from Cons.prems have "item_fields_ok item" and "list_all item_fields_ok items"
    by simp_all
  from read_item_fields_ok [OF this(1)] Cons.IH [OF this(2)]
  show ?case by (elim exE conjE) simp
qed

lemma render_dashboard_schema_ok:
  assumes "schema_ok_but_assignee v"
    and "property v ''actionItems'' = Inr (Some (JArr items))"
  shows "\<exists>d. render_dashboard v fn = Inr d \<and>
           list_all2 (\<lambda>item cell.
             (lacks_assignee item \<longrightarrow> snd cell = []) \<and>
             (\<forall>s. property item ''assignee'' = Inr (Some (JStr s)) \<longrightarrow> snd cell = s) \<and>
             (\<forall>k. property item ''task'' = Inr (Some (JStr k)) \<longrightarrow> fst cell = k))
             items (shown_cards d)"
proof -
  from assms(1) obtain kvs where v: "v = JObj kvs"
    by (cases v) (simp_all add: schema_ok_but_assignee_def)
  from assms(2) v have arr: "map_of kvs ''actionItems'' = Some (JArr items)"
    by simp
  from assms(1) v arr have ok: "list_all item_fields_ok items"
    by (simp add: schema_ok_but_assignee_def)
  from assms(1) v obtain t s m w
    where t: "map_of kvs ''transcription'' = Some (JStr t)"
      and s: "map_of kvs ''executiveSummary'' = Some (JStr s)"
      and m: "map_of kvs ''sentiment'' = Some (JStr m)"
      and w: "map_of kvs ''sentimentReasoning'' = Some (JStr w)"
    by (auto simp: schema_ok_but_assignee_def is_text_def split: option.splits json.splits)
  from read_items_fields_ok [OF ok] obtain vss cells
    where vss: "read_items items = Inr vss" and cells: "item_texts vss = Inr cells"
      and each: "list_all2 (\<lambda>item cell.
             (lacks_assignee item \<longrightarrow> snd cell = []) \<and>
             (\<forall>s. property item ''assignee'' = Inr (Some (JStr s)) \<longrightarrow> snd cell = s) \<and>
             (\<forall>k. property item ''task'' = Inr (Some (JStr k)) \<longrightarrow> fst cell = k)) items cells"
    by blast
  have "read_dashboard v =
      Inr \<lparr>read_summary = Some (JStr s), read_cards = vss, read_transcription = Some (JStr t),
           read_sentiment = Some (JStr m), read_reasoning = Some (JStr w)\<rparr>"
    by (simp add: read_dashboard_def read_actionItems_def v arr vss t s m w)
  then have "render_dashboard v fn =
      Inr \<lparr>shown_summary = s, shown_cards = cells, shown_placeholder = (vss = []),
           shown_transcript = t, shown_sentiment = m, shown_reasoning = w,
           shown_file = (case fn of None \<Rightarrow> [] | Some n \<Rightarrow> n)\<rparr>"
    by (simp add: render_dashboard_def show_dashboard_def child_text_def cells)
  with each show ?thesis
    by simp
qed

lemma schema_ok_truthy: "schema_ok_but_assignee v \<Longrightarrow> json_kind v = IsTruthy"
  by (cases v) (simp_all add: schema_ok_but_assignee_def)

lemma sample_parsed: "JSON_parse_sample sample_text = Inr sample_value"
  by (simp add: JSON_parse_sample_def)

lemma sample_text_not_empty: "sample_text \<noteq> []"
  by (simp add: sample_text_def)

lemma sample_rendered: "renderActionItems sample_value = Inr [(''Send the notes'', [])]"
  by (simp add: renderActionItems_def read_actionItems_def sample_value_def read_item_def
      item_text_def child_text_def)

lemma sample_dashboard:
  "render_dashboard sample_value (Some ''meeting.mp3'') =
     Inr \<lparr>shown_summary = ''s'', shown_cards = [(''Send the notes'', [])],
          shown_placeholder = False, shown_transcript = ''hello'',
          shown_sentiment = ''Neutral'', shown_reasoning = ''r'',
          shown_file = ''meeting.mp3''\<rparr>"
  by (simp add: render_dashboard_def read_dashboard_def show_dashboard_def read_actionItems_def
      sample_value_def read_item_def item_text_def child_text_def)

text \<open>
  Claim C7, as amended. For every model response whose text is not empty and is accepted by
  \<open>JSON.parse\<close>, the inference client returns the parsed value as it is, with no
  ParseFailure for a field the declared schema requires, and the value is stored as the
  result of the \<open>COMPLETED\<close> state. If the value is as the declared schema wants it but for
  assignees that are absent, the page shows the dashboard and the dashboard renders without
  a crash; the assignee shown for an action item that lacks the field is empty, and an
  assignee that is present is shown as it is.
\<close>

theorem missing_assignee_shown_empty:
  "(t \<noteq> [] \<and> JSON_parse t = Inr v \<longrightarrow>
      analyzeAudio JSON_parse (Responds (Some t)) = Inr v \<and>
      onload_resume json_kind (analyzeAudio JSON_parse (Responds (Some t))) a =
        (a\<lparr>result := (if json_kind v = IsNull then None else Some v), state := COMPLETED\<rparr>,
         None)) \<and>
   (schema_ok_but_assignee v \<and> property v ''actionItems'' = Inr (Some (JArr items)) \<longrightarrow>
      render json_kind (a\<lparr>result := Some v, state := COMPLETED\<rparr>) =
        \<lparr>exportButton = True, blocks = [Dashboard v (fileName a)]\<rparr> \<and>
      (\<exists>d. render_dashboard v (fileName a) = Inr d \<and>
         list_all2 (\<lambda>item cell.
           (lacks_assignee item \<longrightarrow> snd cell = []) \<and>
           (\<forall>s. property item ''assignee'' = Inr (Some (JStr s)) \<longrightarrow> snd cell = s) \<and>
           (\<forall>k. property item ''task'' = Inr (Some (JStr k)) \<longrightarrow> fst cell = k))
           items (shown_cards d)))"
proof (intro conjI impI)
  assume parse: "t \<noteq> [] \<and> JSON_parse t = Inr v"
  then show returned: "analyzeAudio JSON_parse (Responds (Some t)) = Inr v"
    by (simp add: analyzeAudio_def)
  show "onload_resume json_kind (analyzeAudio JSON_parse (Responds (Some t))) a =
      (a\<lparr>result := (if json_kind v = IsNull then None else Some v), state := COMPLETED\<rparr>, None)"
    unfolding returned by (simp add: onload_resume_def)
next
  assume ok: "schema_ok_but_assignee v \<and> property v ''actionItems'' = Inr (Some (JArr items))"
  then have "json_kind v = IsTruthy"
    by (simp add: schema_ok_truthy)
  then show "render json_kind (a\<lparr>result := Some v, state := COMPLETED\<rparr>) =
      \<lparr>exportButton = True, blocks = [Dashboard v (fileName a)]\<rparr>"
    by (simp add: render_def)
  from ok show "\<exists>d. render_dashboard v (fileName a) = Inr d \<and>
         list_all2 (\<lambda>item cell.
           (lacks_assignee item \<longrightarrow> snd cell = []) \<and>
           (\<forall>s. property item ''assignee'' = Inr (Some (JStr s)) \<longrightarrow> snd cell = s) \<and>
           (\<forall>k. property item ''task'' = Inr (Some (JStr k)) \<longrightarrow> fst cell = k))
           items (shown_cards d)"
    by (simp add: render_dashboard_schema_ok)
qed

theorem missing_assignee_shown_empty_witness:
  "sample_text \<noteq> [] \<and> JSON_parse_sample sample_text = Inr sample_value \<and>
   schema_ok_but_assignee sample_value \<and>
   property sample_value ''actionItems'' =
     Inr (Some (JArr [JObj [(''task'', JStr ''Send the notes'')]])) \<and>
   lacks_assignee (JObj [(''task'', JStr ''Send the notes'')]) \<and>
   analyzeAudio JSON_parse_sample (Responds (Some sample_text)) = Inr sample_value \<and>
   onload_resume json_kind (analyzeAudio JSON_parse_sample (Responds (Some sample_text)))
       (initial\<lparr>fileName := Some ''meeting.mp3''\<rparr>) =
     (\<lparr>state = COMPLETED, error = None, result = Some sample_value,
       fileName = Some ''meeting.mp3''\<rparr>, None) \<and>
   render json_kind \<lparr>state = COMPLETED, error = None, result = Some sample_value,
       fileName = Some ''meeting.mp3''\<rparr> =
     \<lparr>exportButton = True, blocks = [Dashboard sample_value (Some ''meeting.mp3'')]\<rparr> \<and>
   render_dashboard sample_value (Some ''meeting.mp3'') =
     Inr \<lparr>shown_summary = ''s'', shown_cards = [(''Send the notes'', [])],
          shown_placeholder = False, shown_transcript = ''hello'',
          shown_sentiment = ''Neutral'', shown_reasoning = ''r'',
          shown_file = ''meeting.mp3''\<rparr>"
proof -
  have h3: "schema_ok_but_assignee sample_value"
    by (simp add: schema_ok_but_assignee_def sample_value_def is_text_def item_fields_ok_def)
  have h4: "property sample_value ''actionItems'' =
      Inr (Some (JArr [JObj [(''task'', JStr ''Send the notes'')]]))"
    by (simp add: sample_value_def)
  have lacks: "lacks_assignee (JObj [(''task'', JStr ''Send the notes'')])"
    by (simp add: lacks_assignee_def)
  have kind: "json_kind sample_value = IsTruthy"
    by (simp add: sample_value_def)
  note inst = missing_assignee_shown_empty [where t = sample_text
      and JSON_parse = JSON_parse_sample and v = sample_value
      and items = "[JObj [(''task'', JStr ''Send the notes'')]]"
      and a = "initial\<lparr>fileName := Some ''meeting.mp3''\<rparr>"]
  note parsed = inst [THEN conjunct1, THEN mp, OF conjI [OF sample_text_not_empty sample_parsed]]
  note returned = parsed [THEN conjunct1]
  note resumed = parsed [THEN conjunct2]
  note page = inst [THEN conjunct2, THEN mp, OF conjI [OF h3 h4], THEN conjunct1]
  have stored: "onload_resume json_kind
        (analyzeAudio JSON_parse_sample (Responds (Some sample_text)))
        (initial\<lparr>fileName := Some ''meeting.mp3''\<rparr>) =
     (\<lparr>state = COMPLETED, error = None, result = Some sample_value,
       fileName = Some ''meeting.mp3''\<rparr>, None)"
    unfolding resumed by (simp add: initial_def kind)
  have shown: "render json_kind \<lparr>state = COMPLETED, error = None, result = Some sample_value,
       fileName = Some ''meeting.mp3''\<rparr> =
     \<lparr>exportButton = True, blocks = [Dashboard sample_value (Some ''meeting.mp3'')]\<rparr>"
    using page by (simp add: initial_def)
  from sample_text_not_empty sample_parsed h3 h4 lacks returned stored shown sample_dashboard
  show ?thesis by (intro conjI)
qed

text \<open>
  Claim C7 as stated fails on a response that conforms to the declared schema but for the
  assignee of its one action item: the client returns a value and not a failure, and the
  dashboard shows an empty assignee, not \<open>Unassigned\<close>.
\<close>

theorem missing_assignee_counterexample:
  "lacks_assignee (JObj [(''task'', JStr ''Send the notes'')]) \<and>
   property sample_value ''actionItems'' = Inr (Some (JArr [JObj [(''task'', JStr ''Send the notes'')]])) \<and>
   analyzeAudio JSON_parse_sample (Responds (Some sample_text)) = Inr sample_value \<and>
   renderActionItems sample_value = Inr [(''Send the notes'', [])] \<and>
   renderActionItems sample_value \<noteq> Inr [(''Send the notes'', ''Unassigned'')]"
  by (simp add: sample_rendered sample_parsed sample_text_not_empty analyzeAudio_def
      lacks_assignee_def) (simp add: sample_value_def)

end
